theory Spec2Isabelle
  imports Main
begin

section \<open>Text\<close>

text \<open>
  A Python \<open>str\<close> is a sequence of Unicode code points and is modelled as the list of
  their numbers: \<open>ord c\<close> is the code point of an ASCII character and \<open>ascii\<close> turns an
  ASCII literal into a \<open>str\<close>. Characters beyond ASCII (the emoji of the fixed messages)
  are given by their code point.
\<close>

type_synonym str = "int list"

abbreviation ord :: "char \<Rightarrow> int" where
  "ord \<equiv> of_char"

abbreviation ascii :: "string \<Rightarrow> str" where
  "ascii \<equiv> map ord"

text \<open>\<open>s.startswith(p)\<close>\<close>

fun startswith :: "str \<Rightarrow> str \<Rightarrow> bool" where
  "startswith s [] = True"
| "startswith [] (p # ps) = False"
| "startswith (c # cs) (p # ps) = (c = p \<and> startswith cs ps)"

text \<open>\<open>p in s\<close>: \<open>p\<close> occurs in \<open>s\<close> as a contiguous substring.\<close>

fun str_in :: "str \<Rightarrow> str \<Rightarrow> bool" where
  "str_in p [] = (p = [])"
| "str_in p (c # cs) = (startswith (c # cs) p \<or> str_in p cs)"

text \<open>
  The character classes are those of the interpreter's Unicode database (version 14.0.0,
  CPython 3.11). \<open>\d\<close> in a \<open>str\<close> pattern and \<open>int\<close> accept every decimal digit
  (\<open>str.isdecimal\<close>): these come in 66 runs of ten consecutive code points with the
  values 0 to 9, listed here by the code point of their zero. \<open>\s\<close> in a \<open>str\<close> pattern
  and \<open>str.strip\<close> take the 29 code points of \<open>str.isspace\<close>.
\<close>

definition decimal_zeros :: "int list" where
  "decimal_zeros =
    [48, 1632, 1776, 1984, 2406, 2534, 2662, 2790, 2918, 3046, 3174, 3302, 3430, 3558,
     3664, 3792, 3872, 4160, 4240, 6112, 6160, 6470, 6608, 6784, 6800, 6992, 7088, 7232,
     7248, 42528, 43216, 43264, 43472, 43504, 43600, 44016, 65296, 66720, 68912, 69734,
     69872, 69942, 70096, 70384, 70736, 70864, 71248, 71360, 71472, 71904, 72016, 72784,
     73040, 73120, 92768, 92864, 93008, 120782, 120792, 120802, 120812, 120822, 123200,
     123632, 125264, 130032]"

definition whitespace :: "int list" where
  "whitespace =
    [9, 10, 11, 12, 13, 28, 29, 30, 31, 32, 133, 160, 5760, 8192, 8193, 8194, 8195, 8196,
     8197, 8198, 8199, 8200, 8201, 8202, 8232, 8233, 8239, 8287, 12288]"

definition is_digit :: "int \<Rightarrow> bool" where
  "is_digit c = list_ex (\<lambda>z. z \<le> c \<and> c < z + 10) decimal_zeros"

definition digit_value :: "int \<Rightarrow> nat" where
  "digit_value c =
    (case find (\<lambda>z. z \<le> c \<and> c < z + 10) decimal_zeros of None \<Rightarrow> 0 | Some z \<Rightarrow> nat (c - z))"

definition is_hex :: "int \<Rightarrow> bool" where
  "is_hex c = (c \<in> set (ascii ''0123456789abcdefABCDEF''))"

definition is_space :: "int \<Rightarrow> bool" where
  "is_space c = (c \<in> set whitespace)"

text \<open>\<open>s.strip()\<close>\<close>

definition strip :: "str \<Rightarrow> str" where
  "strip s = rev (dropWhile is_space (rev (dropWhile is_space s)))"

text \<open>
  \<open>int(s)\<close> on a non-empty string of decimal digits: the interpreter refuses a string of
  more than \<open>sys.get_int_max_str_digits()\<close> digits, 4300 unless reconfigured, leading
  zeros counted, with a \<open>ValueError\<close>. \<open>str(n)\<close> on a natural number.
\<close>

datatype error = ValueError

definition int_max_str_digits :: nat where
  "int_max_str_digits = 4300"

definition int_of_digits :: "str \<Rightarrow> nat" where
  "int_of_digits s = foldl (\<lambda>a c. 10 * a + digit_value c) 0 s"

definition py_int :: "str \<Rightarrow> error + nat" where
  "py_int s = (if int_max_str_digits < length s then Inl ValueError else Inr (int_of_digits s))"

definition digit_char :: "nat \<Rightarrow> int" where
  "digit_char d = 48 + int d"

function str_nat :: "nat \<Rightarrow> str" where
  "str_nat n = (if n < 10 then [digit_char n] else str_nat (n div 10) @ [digit_char (n mod 10)])"
  by pat_completeness auto
termination
  by (relation "measure (\<lambda>n. n)") auto

declare str_nat.simps [simp del]

section \<open>Regular expressions\<close>

text \<open>
  The two patterns of the program use literals, greedy and lazy repetition of a character
  class, a greedy optional part, capture groups and sequencing. \<open>matches r g s\<close> lists
  every way \<open>r\<close> can match a prefix of \<open>s\<close>, as the remaining text and the capture groups,
  in the order in which a backtracking matcher tries them; the first entry is the match
  that \<open>re\<close> reports.
\<close>

datatype regex =
    Lit str
  | Plus "int \<Rightarrow> bool"
  | Star "int \<Rightarrow> bool"
  | PlusLazy "int \<Rightarrow> bool"
  | Opt regex
  | Group nat regex
  | Seq regex regex

type_synonym groups = "nat \<Rightarrow> str option"

text \<open>The texts left after one, two, ... characters of the class, shortest match first.\<close>

fun rests :: "(int \<Rightarrow> bool) \<Rightarrow> str \<Rightarrow> str list" where
  "rests P [] = []"
| "rests P (c # cs) = (if P c then cs # rests P cs else [])"

fun matches :: "regex \<Rightarrow> groups \<Rightarrow> str \<Rightarrow> (groups \<times> str) list" where
  "matches (Lit l) g s = (if startswith s l then [(g, drop (length l) s)] else [])"
| "matches (Plus P) g s = map (Pair g) (rev (rests P s))"
| "matches (Star P) g s = map (Pair g) (rev (rests P s) @ [s])"
| "matches (PlusLazy P) g s = map (Pair g) (rests P s)"
| "matches (Opt r) g s = matches r g s @ [(g, s)]"
| "matches (Group n r) g s =
     map (\<lambda>(g', s'). (g'(n \<mapsto> take (length s - length s') s), s')) (matches r g s)"
| "matches (Seq r1 r2) g s = concat (map (\<lambda>(g', s'). matches r2 g' s') (matches r1 g s))"

fun cat :: "regex list \<Rightarrow> regex" where
  "cat [] = Lit []"
| "cat [r] = r"
| "cat (r # rs) = Seq r (cat rs)"

text \<open>\<open>m.group(n)\<close> as \<open>findall\<close> reports it: the empty string for a group that took no part.\<close>

definition group :: "groups \<Rightarrow> nat \<Rightarrow> str" where
  "group g n = (case g n of None \<Rightarrow> [] | Some s \<Rightarrow> s)"

text \<open>\<open>re.search\<close>: the match at the leftmost position that has one.\<close>

fun search :: "regex \<Rightarrow> str \<Rightarrow> groups option" where
  "search r [] = (case matches r Map.empty [] of [] \<Rightarrow> None | (g, s') # _ \<Rightarrow> Some g)"
| "search r (c # cs) =
     (case matches r Map.empty (c # cs) of [] \<Rightarrow> search r cs | (g, s') # _ \<Rightarrow> Some g)"

text \<open>
  \<open>re.findall\<close>: the matches from left to right, each search starting where the last match
  ended. A match that consumed nothing moves the scan one character on; the frame pattern
  starts with a literal, so that it has no such match.
\<close>

function findall :: "regex \<Rightarrow> str \<Rightarrow> groups list" where
  "findall r [] = (case matches r Map.empty [] of [] \<Rightarrow> [] | (g, s') # _ \<Rightarrow> [g])"
| "findall r (c # cs) =
     (case matches r Map.empty (c # cs) of
        [] \<Rightarrow> findall r cs
      | (g, s') # _ \<Rightarrow> g # (if length s' < length (c # cs) then findall r s' else findall r cs))"
  by pat_completeness auto
termination
  by (relation "measure (\<lambda>(r, s). length s)") auto

section \<open>The signal vocabulary\<close>

definition octagonal_sign :: str where "octagonal_sign = [0x1F6D1]"
definition collision :: str where "collision = [0x1F4A5]"
definition division_sign :: str where "division_sign = [0x2797]"
definition high_voltage :: str where "high_voltage = [0x26A1]"
definition bus :: str where "bus = [0x1F68C]"
definition magnifying_glass :: str where "magnifying_glass = [0x1F50D]"
definition telephone :: str where "telephone = [0x1F4DE]"
definition alarm_clock :: str where "alarm_clock = [0x23F0]"
definition cross_mark :: str where "cross_mark = [0x274C]"
definition thinking_face :: str where "thinking_face = [0x1F914]"
definition party_popper :: str where "party_popper = [0x1F389]"
definition warning_sign :: str where "warning_sign = [0x26A0, 0xFE0F]"
definition check_mark :: str where "check_mark = [0x2705]"
definition direct_hit :: str where "direct_hit = [0x1F3AF]"
definition file_folder :: str where "file_folder = [0x1F4C1]"
definition page_facing_up :: str where "page_facing_up = [0x1F4C4]"
definition wrench :: str where "wrench = [0x1F527]"
definition clipboard :: str where "clipboard = [0x1F4CB]"
definition rightwards_arrow :: str where "rightwards_arrow = [0x2192]"
definition light_bulb :: str where "light_bulb = [0x1F4A1]"
definition bullet :: str where "bullet = [0x2022]"
definition shrug :: str where "shrug = [0x1F937]"
definition sparkles :: str where "sparkles = [0x2728]"
definition squared_sos :: str where "squared_sos = [0x1F198]"

text \<open>A \<open>dict\<close> literal, kept as the list of its items: iteration follows insertion order.\<close>

definition FRIENDLY_SIGNALS :: "(str \<times> str) list" where
  "FRIENDLY_SIGNALS =
    [(ascii ''SIGSEGV'', octagonal_sign @ ascii '' Segmentation fault (tried to access memory that doesn't belong to you)''),
     (ascii ''SIGABRT'', collision @ ascii '' Abort signal (program decided to quit unexpectedly)''),
     (ascii ''SIGFPE'', division_sign @ ascii '' Math error (division by zero or floating point issue)''),
     (ascii ''SIGILL'', high_voltage @ ascii '' Illegal instruction (CPU didn't understand your code)''),
     (ascii ''SIGBUS'', bus @ ascii '' Bus error (misaligned memory access)''),
     (ascii ''SIGTRAP'', magnifying_glass @ ascii '' Trace/breakpoint trap (debugger is watching)''),
     (ascii ''SIGSYS'', telephone @ ascii '' Bad system call (wrong number to the system)'')]"

text \<open>\<open>d.get(k, default)\<close>\<close>

definition dict_get :: "(str \<times> str) list \<Rightarrow> str \<Rightarrow> str \<Rightarrow> str" where
  "dict_get d k dflt = (case map_of d k of None \<Rightarrow> dflt | Some v \<Rightarrow> v)"

section \<open>The debugger invoker\<close>

text \<open>
  What \<open>subprocess.run\<close> does is the environment's: it returns the two captured streams or
  raises. Every exception derived from \<open>Exception\<close> carries its \<open>str\<close>:
  \<open>TimeoutExpired\<close> and \<open>FileNotFoundError\<close> have handlers of their own,
  \<open>OtherException\<close> stands for any other one, and \<open>Interrupt\<close> for those that are not (\<open>KeyboardInterrupt\<close>, \<open>SystemExit\<close>),
  which \<open>except Exception\<close> lets through.
\<close>

datatype exn = TimeoutExpired str | FileNotFoundError str | OtherException str | Interrupt

datatype run_result = Completed str str | Raised exn

type_synonym subprocess_run = "str list \<Rightarrow> nat option \<Rightarrow> str \<Rightarrow> run_result"

definition handle_args :: "str list" where
  "handle_args =
    [ascii ''-ex'', ascii ''set pagination off'',
     ascii ''-ex'', ascii ''set confirm off'',
     ascii ''-ex'', ascii ''handle SIGSEGV stop print nopass'',
     ascii ''-ex'', ascii ''handle SIGABRT stop print nopass'',
     ascii ''-ex'', ascii ''handle SIGFPE stop print nopass'',
     ascii ''-ex'', ascii ''handle SIGILL stop print nopass'',
     ascii ''-ex'', ascii ''handle SIGBUS stop print nopass'']"

definition launch_cmd :: "str list \<Rightarrow> str list" where
  "launch_cmd cmd =
    [ascii ''gdb'', ascii ''--quiet'', ascii ''--nx''] @ handle_args @
    [ascii ''-ex'', ascii ''run'', ascii ''-ex'', ascii ''bt full'', ascii ''-ex'', ascii ''quit'', ascii ''--args''] @ cmd"

definition run_gdb :: "subprocess_run \<Rightarrow> str list \<Rightarrow> nat option \<Rightarrow> exn + str" where
  "run_gdb run cmd timeout =
    (case run (launch_cmd cmd) timeout (ascii ''y\<newline>'') of
       Completed stdout stderr \<Rightarrow> Inr (stdout @ stderr)
     | Raised (TimeoutExpired e) \<Rightarrow>
         Inr (alarm_clock @ ascii '' Time's up! Program took too long and was stopped.'')
     | Raised (FileNotFoundError e) \<Rightarrow>
         Inr (cross_mark @ ascii '' Oops! GDB is not installed. Please install it with: sudo apt install gdb'')
     | Raised (OtherException e) \<Rightarrow>
         Inr (cross_mark @ ascii '' Whoops! Failed to run GDB: '' @ e)
     | Raised Interrupt \<Rightarrow> Inl Interrupt)"

definition str_int :: "int \<Rightarrow> str" where
  "str_int i = (if i < 0 then (ascii ''-'') @ str_nat (nat (- i)) else str_nat (nat i))"

definition attach_cmd :: "int \<Rightarrow> str list" where
  "attach_cmd pid =
    [ascii ''gdb'', ascii ''--quiet'', ascii ''--nx''] @ handle_args @
    [ascii ''-ex'', ascii ''attach '' @ str_int pid, ascii ''-ex'', ascii ''continue'',
     ascii ''-ex'', ascii ''bt full'', ascii ''-ex'', ascii ''quit'']"

definition attach_gdb :: "subprocess_run \<Rightarrow> int \<Rightarrow> exn + str" where
  "attach_gdb run pid =
    (case run (attach_cmd pid) None (ascii ''y\<newline>'') of
       Completed stdout stderr \<Rightarrow> Inr (stdout @ stderr)
     | Raised (FileNotFoundError e) \<Rightarrow>
         Inr (cross_mark @ ascii '' Oops! GDB is not installed. Please install it with: sudo apt install gdb'')
     | Raised (TimeoutExpired e) \<Rightarrow>
         Inr (cross_mark @ ascii '' Whoops! Failed to attach GDB: '' @ e)
     | Raised (OtherException e) \<Rightarrow>
         Inr (cross_mark @ ascii '' Whoops! Failed to attach GDB: '' @ e)
     | Raised Interrupt \<Rightarrow> Inl Interrupt)"

section \<open>The crash report summarizer\<close>

text \<open>
  \<^verbatim>\<open>#(\d+)\s+(0x[0-9a-fA-F]+)?\s+in\s+([^(]+)(\([^)]*\))?\s+\((?:[^)]*)\)\s+at\s+(.+?):(\d+)\<close>
\<close>

definition frame_pattern :: regex where
  "frame_pattern = cat
    [Lit (ascii ''#''), Group 1 (Plus is_digit),
     Plus is_space,
     Opt (Group 2 (Seq (Lit (ascii ''0x'')) (Plus is_hex))),
     Plus is_space, Lit (ascii ''in''), Plus is_space,
     Group 3 (Plus (\<lambda>c. c \<noteq> ord CHR ''('')),
     Opt (Group 4 (cat [Lit (ascii ''(''), Star (\<lambda>c. c \<noteq> ord CHR '')''), Lit (ascii '')'')])),
     Plus is_space,
     Lit (ascii ''(''), Star (\<lambda>c. c \<noteq> ord CHR '')''), Lit (ascii '')''),
     Plus is_space, Lit (ascii ''at''), Plus is_space,
     Group 5 (PlusLazy (\<lambda>c. c \<noteq> ord CHR ''\<newline>'')),
     Lit (ascii '':''), Group 6 (Plus is_digit)]"

text \<open>\<^verbatim>\<open>exited with code (\d+)\<close>\<close>

definition exit_pattern :: regex where
  "exit_pattern = Seq (Lit (ascii ''exited with code '')) (Group 1 (Plus is_digit))"

text \<open>
  A frame is the tuple \<open>findall\<close> gives for one match: frame number, address, function,
  parameters, file, line. A bucket entry is \<open>(frame_num, full_func, file, line)\<close>.
\<close>

type_synonym frame = "str \<times> str \<times> str \<times> str \<times> str \<times> str"
type_synonym entry = "str \<times> str \<times> str \<times> str"

definition frame_of :: "groups \<Rightarrow> frame" where
  "frame_of g = (group g 1, group g 2, group g 3, group g 4, group g 5, group g 6)"

definition frames :: "str \<Rightarrow> frame list" where
  "frames output = map frame_of (findall frame_pattern output)"

definition is_library :: "str \<Rightarrow> str \<Rightarrow> bool" where
  "is_library func file = list_ex (\<lambda>b. b)
    [startswith file (ascii ''/usr''), startswith file (ascii ''/lib''),
     str_in (ascii ''sysdeps'') file, str_in (ascii ''malloc'') file, str_in (ascii ''.so'') file,
     str_in (ascii ''libc'') file, str_in (ascii ''libstdc++'') file, str_in (ascii ''libpthread'') file,
     str_in (ascii ''ld-linux'') file, str_in (ascii ''csu'') file, str_in (ascii ''vg_preload'') file,
     str_in (ascii ''linux-gnu'') file, startswith func (ascii ''__GI_''),
     startswith func (ascii ''__libc_''), startswith func (ascii ''std::''),
     startswith func (ascii ''operator'')]"

definition full_func :: "frame \<Rightarrow> str" where
  "full_func frame = (case frame of (frame_num, addr, func, params, file, line) \<Rightarrow>
     strip func @ (if params \<noteq> [] then params else []))"

definition entry_of :: "frame \<Rightarrow> entry" where
  "entry_of frame = (case frame of (frame_num, addr, func, params, file, line) \<Rightarrow>
     (frame_num, full_func frame, file, line))"

text \<open>One turn of the classification loop, on the pair \<open>(user_frames, library_frames)\<close>.\<close>

definition classify :: "frame \<Rightarrow> entry list \<times> entry list \<Rightarrow> entry list \<times> entry list" where
  "classify frame buckets =
    (case frame of (frame_num, addr, func, params, file, line) \<Rightarrow>
     case buckets of (user_frames, library_frames) \<Rightarrow>
       if is_library func file
       then (user_frames, library_frames @ [entry_of frame])
       else (user_frames @ [entry_of frame], library_frames))"

definition buckets :: "frame list \<Rightarrow> entry list \<times> entry list" where
  "buckets fs = fold classify fs ([], [])"

definition func_of :: "entry \<Rightarrow> str" where
  "func_of e = (case e of (frame_num, func, file, line) \<Rightarrow> func)"

text \<open>\<open>xs[-k]\<close>, for \<open>1 \<le> k \<le> len(xs)\<close>.\<close>

definition from_end :: "'a list \<Rightarrow> nat \<Rightarrow> 'a" where
  "from_end xs k = xs ! (length xs - k)"

definition call_chain :: "entry list \<Rightarrow> str" where
  "call_chain user_frames =
    (if length user_frames > 1
     then (ascii ''   1. '') @ func_of (from_end user_frames 1) @ ascii '' (started here)\<newline>'' @
          concat (map (\<lambda>i. ascii ''   '' @ str_nat (i + 2) @ ascii ''. '' @
                         func_of (from_end user_frames (i + 2)) @ ascii ''\<newline>'')
                      [0 ..< min 3 (length user_frames - 1)]) @
          ascii ''   '' @ rightwards_arrow @ ascii '' '' @ func_of (user_frames ! 0) @ ascii '' (crashed here)\<newline>''
     else [])"

definition system_hint :: "entry list \<Rightarrow> str" where
  "system_hint library_frames =
    (if library_frames \<noteq> []
     then (ascii ''\<newline>'') @ light_bulb @ ascii '' **Hint:** Your code called a system function that caused the crash.\<newline>'' @
          ascii ''   The system was trying to: '' @ func_of (library_frames ! 0) @ ascii ''\<newline>''
     else [])"

definition user_report :: "entry list \<Rightarrow> entry list \<Rightarrow> str" where
  "user_report user_frames library_frames =
    (case user_frames ! 0 of (frame_num, func, file, line) \<Rightarrow>
       direct_hit @ ascii '' **The problem is likely here:**\<newline>'' @
       ascii ''   '' @ file_folder @ ascii '' File: '' @ file @ ascii ''\<newline>'' @
       ascii ''   '' @ page_facing_up @ ascii '' Line: '' @ line @ ascii ''\<newline>'' @
       ascii ''   '' @ wrench @ ascii '' Function: '' @ func @ ascii ''\<newline>\<newline>'' @
       clipboard @ ascii '' **What happened (simplified):**\<newline>'' @
       call_chain user_frames @
       system_hint library_frames)"

text \<open>The loop over the library frames, left at the first frame that gives a line.\<close>

fun look_at :: "entry list \<Rightarrow> str" where
  "look_at [] = []"
| "look_at ((frame_num, func, file, line) # rest) =
    (if \<not> list_ex (\<lambda>lib_term. str_in lib_term func) [ascii ''std::'', ascii ''__GI_'', ascii ''__libc_'']
     then magnifying_glass @ ascii '' **Look at this code:** '' @ func @ ascii '' at '' @ file @ ascii '':'' @ line @ ascii ''\<newline>''
     else look_at rest)"

definition library_report :: "entry list \<Rightarrow> str" where
  "library_report library_frames =
    thinking_face @ ascii '' **The crash happened in a system library**\<newline>'' @
    light_bulb @ ascii '' **This usually means:**\<newline>'' @
    ascii ''   '' @ bullet @ ascii '' You passed invalid data to a system function\<newline>'' @
    ascii ''   '' @ bullet @ ascii '' Memory was corrupted before the system call\<newline>'' @
    ascii ''   '' @ bullet @ ascii '' You're using a library function incorrectly\<newline>\<newline>'' @
    look_at library_frames"

definition no_frames_report :: str where
  "no_frames_report =
    shrug @ ascii '' **Couldn't find detailed crash information**\<newline>'' @
    light_bulb @ ascii '' **Try this:** Compile with -g flag: g++ -g your_code.cpp\<newline>''"

definition quick_tips :: str where
  "quick_tips =
    ascii ''\<newline>'' @ sparkles @ ascii '' **Quick tips:**\<newline>'' @
    ascii ''   '' @ bullet @ ascii '' Check for null pointers\<newline>'' @
    ascii ''   '' @ bullet @ ascii '' Verify array bounds\<newline>'' @
    ascii ''   '' @ bullet @ ascii '' Ensure memory is properly allocated\<newline>'' @
    ascii ''   '' @ bullet @ ascii '' Validate function inputs\<newline>'' @
    ascii ''   '' @ bullet @ ascii '' Avoid double frees or invalid frees\<newline>'' @
    ascii ''   '' @ bullet @ ascii '' Use tools like Valgrind for memory issues\<newline>'' @
    ascii ''   '' @ bullet @ ascii '' Don't hesitate to ask for help! '' @ squared_sos @ ascii ''\<newline>''"

text \<open>The loop over \<open>FRIENDLY_SIGNALS.items()\<close>, left at the first name found in the text.\<close>

fun detect_signal :: "(str \<times> str) list \<Rightarrow> str \<Rightarrow> str option" where
  "detect_signal [] output = None"
| "detect_signal ((sig, desc) # rest) output =
    (if str_in sig output then Some sig else detect_signal rest output)"

definition header :: "str \<Rightarrow> str" where
  "header signal_detected =
    ascii ''\<newline>'' @ magnifying_glass @ ascii '' '' @
    dict_get FRIENDLY_SIGNALS signal_detected (ascii ''Unknown error happened!'') @ ascii ''\<newline>\<newline>''"

definition no_crash :: str where
  "no_crash = check_mark @ ascii '' No crash detected! Program finished normally.''"

definition success :: str where
  "success = party_popper @ ascii '' Success! Program finished perfectly with code 0!''"

definition error_exit :: "nat \<Rightarrow> str" where
  "error_exit code =
    warning_sign @ ascii ''  Program exited with error code '' @ str_nat code @
    ascii '' (not a crash, but something went wrong)''"

definition no_signal_report :: "str \<Rightarrow> error + str" where
  "no_signal_report output =
    (if str_in (ascii ''exited with code'') output
     then (case search exit_pattern output of
             None \<Rightarrow> Inr no_crash
           | Some exit_code \<Rightarrow>
               (case py_int (group exit_code 1) of
                  Inl e \<Rightarrow> Inl e
                | Inr code \<Rightarrow> if code = 0 then Inr success else Inr (error_exit code)))
     else Inr no_crash)"

definition crash_report :: "str \<Rightarrow> str \<Rightarrow> str" where
  "crash_report signal_detected output =
    (case buckets (frames output) of (user_frames, library_frames) \<Rightarrow>
       header signal_detected @
       (if user_frames \<noteq> [] then user_report user_frames library_frames
        else if library_frames \<noteq> [] then library_report library_frames
        else no_frames_report) @
       quick_tips)"

definition parse_gdb_output :: "str \<Rightarrow> error + str" where
  "parse_gdb_output output =
    (if output = [] then Inr (thinking_face @ ascii '' Hmm, no output to analyze. That's strange!'')
     else case detect_signal FRIENDLY_SIGNALS output of
            None \<Rightarrow> no_signal_report output
          | Some signal_detected \<Rightarrow> Inr (crash_report signal_detected output))"

section \<open>What a pattern matches\<close>

text \<open>
  The declarative reading of a pattern, to state what the matcher finds:
  \<open>accepts r g w g'\<close> holds when \<open>r\<close> matches exactly the text \<open>w\<close>, taking the capture
  groups from \<open>g\<close> to \<open>g'\<close>. \<open>group_indices r\<close> are the groups that \<open>r\<close> can set.
\<close>

fun accepts :: "regex \<Rightarrow> groups \<Rightarrow> str \<Rightarrow> groups \<Rightarrow> bool" where
  "accepts (Lit l) g w g' = (w = l \<and> g' = g)"
| "accepts (Plus P) g w g' = (w \<noteq> [] \<and> list_all P w \<and> g' = g)"
| "accepts (Star P) g w g' = (list_all P w \<and> g' = g)"
| "accepts (PlusLazy P) g w g' = (w \<noteq> [] \<and> list_all P w \<and> g' = g)"
| "accepts (Opt r) g w g' = (accepts r g w g' \<or> (w = [] \<and> g' = g))"
| "accepts (Group n r) g w g' = (\<exists>g0. accepts r g w g0 \<and> g' = g0(n \<mapsto> w))"
| "accepts (Seq r1 r2) g w g' =
     (\<exists>w1 w2 g1. w = w1 @ w2 \<and> accepts r1 g w1 g1 \<and> accepts r2 g1 w2 g')"

fun group_indices :: "regex \<Rightarrow> nat set" where
  "group_indices (Lit l) = {}"
| "group_indices (Plus P) = {}"
| "group_indices (Star P) = {}"
| "group_indices (PlusLazy P) = {}"
| "group_indices (Opt r) = group_indices r"
| "group_indices (Group n r) = insert n (group_indices r)"
| "group_indices (Seq r1 r2) = group_indices r1 \<union> group_indices r2"

section \<open>The specification's wording\<close>

text \<open>
  Two predicates that follow the words of the specification where the program does
  something else, to compare the two: a path that \<^emph>\<open>ends with\<close> the shared-library
  extension, and the first library frame whose function does not \<^emph>\<open>start with\<close> one of
  the three internal prefixes.
\<close>

definition endswith :: "str \<Rightarrow> str \<Rightarrow> bool" where
  "endswith s p = startswith (rev s) (rev p)"

definition spec_is_library :: "str \<Rightarrow> str \<Rightarrow> bool" where
  "spec_is_library func file =
    (startswith file (ascii ''/usr'') \<or> startswith file (ascii ''/lib'') \<or>
     str_in (ascii ''sysdeps'') file \<or> str_in (ascii ''malloc'') file \<or>
     str_in (ascii ''libc'') file \<or> str_in (ascii ''libstdc++'') file \<or> str_in (ascii ''libpthread'') file \<or>
     str_in (ascii ''ld-linux'') file \<or> str_in (ascii ''csu'') file \<or> str_in (ascii ''vg_preload'') file \<or>
     str_in (ascii ''linux-gnu'') file \<or>
     endswith file (ascii ''.so'') \<or>
     startswith func (ascii ''__GI_'') \<or> startswith func (ascii ''__libc_'') \<or>
     startswith func (ascii ''std::'') \<or> startswith func (ascii ''operator''))"

definition spec_hint_frame :: "entry list \<Rightarrow> entry option" where
  "spec_hint_frame library_frames =
    find (\<lambda>e. \<not> list_ex (\<lambda>lib_term. startswith (func_of e) lib_term)
                     [ascii ''std::'', ascii ''__GI_'', ascii ''__libc_''])
      library_frames"


section \<open>Substrings and prefixes\<close>

lemma startswith_iff: "startswith s p \<longleftrightarrow> (\<exists>r. s = p @ r)"
  by (induction s p rule: startswith.induct) auto

lemma str_in_iff: "str_in p s \<longleftrightarrow> (\<exists>a b. s = a @ p @ b)"
proof (induction s)
  case Nil
  show ?case by auto
next
  case (Cons c cs)
  have "(\<exists>a b. c # cs = a @ p @ b) \<longleftrightarrow> (\<exists>b. c # cs = p @ b) \<or> (\<exists>a b. cs = a @ p @ b)"
  proof
    assume "\<exists>a b. c # cs = a @ p @ b"
    then obtain a b where ab: "c # cs = a @ p @ b" by blast
    show "(\<exists>b. c # cs = p @ b) \<or> (\<exists>a b. cs = a @ p @ b)"
    proof (cases a)
      case Nil
      with ab show ?thesis by auto
    next
      case (Cons x a')
      with ab have "cs = a' @ p @ b" by simp
      then show ?thesis by blast
    qed
  next
    assume "(\<exists>b. c # cs = p @ b) \<or> (\<exists>a b. cs = a @ p @ b)"
    then show "\<exists>a b. c # cs = a @ p @ b"
    proof
      assume "\<exists>b. c # cs = p @ b"
      then obtain b where "c # cs = [] @ p @ b" by auto
      then show ?thesis by blast
    next
      assume "\<exists>a b. cs = a @ p @ b"
      then obtain a b where "c # cs = (c # a) @ p @ b" by auto
      then show ?thesis by blast
    qed
  qed
  with Cons show ?case by (simp add: startswith_iff)
qed

section \<open>Signal detection\<close>

lemma detect_signal_find:
  "detect_signal d output = find (\<lambda>sig. str_in sig output) (map fst d)"
  by (induction d) auto

lemma detect_signal_Some:
  "detect_signal d output = Some sig \<Longrightarrow>
     str_in sig output \<and> (\<exists>desc. map_of d sig = Some desc \<and> (sig, desc) \<in> set d)"
  by (induction d) (auto split: if_splits)

lemma detect_signal_names:
  "detect_signal FRIENDLY_SIGNALS output =
     find (\<lambda>sig. \<exists>a b. output = a @ sig @ b)
       [ascii ''SIGSEGV'', ascii ''SIGABRT'', ascii ''SIGFPE'', ascii ''SIGILL'', ascii ''SIGBUS'', ascii ''SIGTRAP'', ascii ''SIGSYS'']"
  by (simp add: detect_signal_find FRIENDLY_SIGNALS_def str_in_iff del: find.simps)

lemma no_signal_detected:
  assumes "\<forall>sig \<in> set [ascii ''SIGSEGV'', ascii ''SIGABRT'', ascii ''SIGFPE'', ascii ''SIGILL'', ascii ''SIGBUS'', ascii ''SIGTRAP'', ascii ''SIGSYS''].
             \<not> (\<exists>a b. output = a @ sig @ b)"
  shows "detect_signal FRIENDLY_SIGNALS output = None"
  unfolding detect_signal_names find_None_iff using assms by blast

text \<open>
  Claim C4: the summarizer detects at most one signal, the first name of the vocabulary,
  in the order SIGSEGV, SIGABRT, SIGFPE, SIGILL, SIGBUS, SIGTRAP, SIGSYS, that occurs
  anywhere in the text as a substring.
\<close>

theorem detect_signal_first_in_vocabulary:
  "detect_signal FRIENDLY_SIGNALS output =
     find (\<lambda>sig. \<exists>a b. output = a @ sig @ b)
       [ascii ''SIGSEGV'', ascii ''SIGABRT'', ascii ''SIGFPE'', ascii ''SIGILL'', ascii ''SIGBUS'', ascii ''SIGTRAP'', ascii ''SIGSYS'']"
  by (rule detect_signal_names)

text \<open>
  In this text SIGTRAP comes first, inside a word, and SIGBUS later; SIGBUS precedes
  SIGTRAP in the vocabulary and is the one detected.
\<close>

theorem detect_signal_first_in_vocabulary_witness:
  "find (\<lambda>sig. \<exists>a b. ascii ''the SIGTRAPper saw SIGBUS'' = a @ sig @ b)
     [ascii ''SIGSEGV'', ascii ''SIGABRT'', ascii ''SIGFPE'', ascii ''SIGILL'', ascii ''SIGBUS'', ascii ''SIGTRAP'', ascii ''SIGSYS''] =
   Some (ascii ''SIGBUS'')"
proof -
  have "detect_signal FRIENDLY_SIGNALS (ascii ''the SIGTRAPper saw SIGBUS'') = Some (ascii ''SIGBUS'')"
    by code_simp
  with detect_signal_first_in_vocabulary [of "ascii ''the SIGTRAPper saw SIGBUS''"]
  show ?thesis by simp
qed

text \<open>
  Claim C9: a detected signal is a key of the vocabulary, so that the header's lookup
  never takes its default and the report starts with the explanation of that signal.
\<close>

theorem detected_signal_has_explanation:
  assumes "detect_signal FRIENDLY_SIGNALS output = Some sig"
  shows "\<exists>desc rest. (sig, desc) \<in> set FRIENDLY_SIGNALS \<and>
           dict_get FRIENDLY_SIGNALS sig (ascii ''Unknown error happened!'') = desc \<and>
           desc \<noteq> ascii ''Unknown error happened!'' \<and>
           parse_gdb_output output =
             Inr (ascii ''\<newline>'' @ magnifying_glass @ ascii '' '' @ desc @ ascii ''\<newline>\<newline>'' @ rest)"
proof -
  from detect_signal_Some [OF assms] obtain desc where
    occ: "str_in sig output" and m: "map_of FRIENDLY_SIGNALS sig = Some desc"
    and mem: "(sig, desc) \<in> set FRIENDLY_SIGNALS" by blast
  from mem have ne: "sig \<noteq> []" and nf: "desc \<noteq> ascii ''Unknown error happened!''"
    by (auto simp: FRIENDLY_SIGNALS_def octagonal_sign_def collision_def division_sign_def
        high_voltage_def bus_def magnifying_glass_def telephone_def)
  from occ ne have out: "output \<noteq> []" by (cases "output") auto
  have get: "dict_get FRIENDLY_SIGNALS sig (ascii ''Unknown error happened!'') = desc"
    by (simp add: dict_get_def m)
  obtain u l where b: "buckets (frames output) = (u, l)" by (cases "buckets (frames output)")
  have "parse_gdb_output output = Inr (ascii ''\<newline>'' @ magnifying_glass @ ascii '' '' @ desc @ ascii ''\<newline>\<newline>'' @
      ((if u \<noteq> [] then user_report u l else if l \<noteq> [] then library_report l
        else no_frames_report) @ quick_tips))"
    by (simp add: parse_gdb_output_def out assms crash_report_def b header_def dict_get_def m)
  with mem get nf show ?thesis by blast
qed

theorem detected_signal_has_explanation_witness:
  "\<exists>desc rest. (ascii ''SIGFPE'', desc) \<in> set FRIENDLY_SIGNALS \<and>
     dict_get FRIENDLY_SIGNALS (ascii ''SIGFPE'') (ascii ''Unknown error happened!'') = desc \<and>
     desc \<noteq> ascii ''Unknown error happened!'' \<and>
     parse_gdb_output (ascii ''Program received signal SIGFPE, Arithmetic exception.'') =
       Inr (ascii ''\<newline>'' @ magnifying_glass @ ascii '' '' @ desc @ ascii ''\<newline>\<newline>'' @ rest)"
proof -
  have "detect_signal FRIENDLY_SIGNALS
          (ascii ''Program received signal SIGFPE, Arithmetic exception.'') = Some (ascii ''SIGFPE'')"
    by code_simp
  from detected_signal_has_explanation [OF this] show ?thesis .
qed

section \<open>Failures of the launch\<close>

text \<open>
  Claim C8: in launch mode a timeout, a missing debugger and any other exception of the
  launch each come back as a fixed text (the last with the failure's description), and
  whatever the launch does short of an interrupt, the caller receives a string.
\<close>

theorem run_gdb_failure_is_text:
  "(run (launch_cmd cmd) timeout (ascii ''y\<newline>'') = Raised (TimeoutExpired e) \<longrightarrow>
      run_gdb run cmd timeout =
        Inr (alarm_clock @ ascii '' Time's up! Program took too long and was stopped.'')) \<and>
   (run (launch_cmd cmd) timeout (ascii ''y\<newline>'') = Raised (FileNotFoundError e) \<longrightarrow>
      run_gdb run cmd timeout =
        Inr (cross_mark @ ascii '' Oops! GDB is not installed. Please install it with: sudo apt install gdb'')) \<and>
   (run (launch_cmd cmd) timeout (ascii ''y\<newline>'') = Raised (OtherException e) \<longrightarrow>
      run_gdb run cmd timeout = Inr (cross_mark @ ascii '' Whoops! Failed to run GDB: '' @ e)) \<and>
   (run (launch_cmd cmd) timeout (ascii ''y\<newline>'') \<noteq> Raised Interrupt \<longrightarrow>
      (\<exists>text. run_gdb run cmd timeout = Inr text))"
  by (auto simp: run_gdb_def split: run_result.splits exn.splits)

theorem run_gdb_failure_is_text_witness:
  "run_gdb (\<lambda>c t i. Raised (TimeoutExpired (ascii ''timed out after 30 seconds'')))
       [ascii ''./a.out''] (Some 30) =
     Inr (alarm_clock @ ascii '' Time's up! Program took too long and was stopped.'') \<and>
   run_gdb (\<lambda>c t i. Raised (FileNotFoundError (ascii ''No such file or directory: gdb'')))
       [ascii ''./a.out''] (Some 30) =
     Inr (cross_mark @ ascii '' Oops! GDB is not installed. Please install it with: sudo apt install gdb'') \<and>
   run_gdb (\<lambda>c t i. Raised (OtherException (ascii ''Permission denied''))) [ascii ''./a.out''] (Some 30) =
     Inr (cross_mark @ ascii '' Whoops! Failed to run GDB: Permission denied'') \<and>
   (\<exists>text. run_gdb (\<lambda>c t i. Completed (ascii ''out'') (ascii ''err'')) [ascii ''./a.out''] (Some 30) = Inr text)"
  using
    run_gdb_failure_is_text [of "\<lambda>c t i. Raised (TimeoutExpired (ascii ''timed out after 30 seconds''))"
      "[ascii ''./a.out'']" "Some 30" "ascii ''timed out after 30 seconds''"]
    run_gdb_failure_is_text [of "\<lambda>c t i. Raised (FileNotFoundError (ascii ''No such file or directory: gdb''))"
      "[ascii ''./a.out'']" "Some 30" "ascii ''No such file or directory: gdb''"]
    run_gdb_failure_is_text [of "\<lambda>c t i. Raised (OtherException (ascii ''Permission denied''))"
      "[ascii ''./a.out'']" "Some 30" "ascii ''Permission denied''"]
    run_gdb_failure_is_text [of "\<lambda>c t i. Completed (ascii ''out'') (ascii ''err'')" "[ascii ''./a.out'']" "Some 30"]
  by simp

section \<open>Classification of the frames\<close>

lemma fold_classify:
  "fold classify fs (u, l) =
     (u @ map entry_of (filter (\<lambda>(frame_num, addr, func, params, file, line). \<not> is_library func file) fs),
      l @ map entry_of (filter (\<lambda>(frame_num, addr, func, params, file, line). is_library func file) fs))"
  by (induction fs arbitrary: u l) (auto simp: classify_def)

lemma is_library_iff:
  "is_library func file \<longleftrightarrow>
     (\<exists>r. file = ascii ''/usr'' @ r) \<or> (\<exists>r. file = ascii ''/lib'' @ r) \<or>
     (\<exists>a b. file = a @ ascii ''sysdeps'' @ b) \<or> (\<exists>a b. file = a @ ascii ''malloc'' @ b) \<or>
     (\<exists>a b. file = a @ ascii ''.so'' @ b) \<or> (\<exists>a b. file = a @ ascii ''libc'' @ b) \<or>
     (\<exists>a b. file = a @ ascii ''libstdc++'' @ b) \<or> (\<exists>a b. file = a @ ascii ''libpthread'' @ b) \<or>
     (\<exists>a b. file = a @ ascii ''ld-linux'' @ b) \<or> (\<exists>a b. file = a @ ascii ''csu'' @ b) \<or>
     (\<exists>a b. file = a @ ascii ''vg_preload'' @ b) \<or> (\<exists>a b. file = a @ ascii ''linux-gnu'' @ b) \<or>
     (\<exists>r. func = ascii ''__GI_'' @ r) \<or> (\<exists>r. func = ascii ''__libc_'' @ r) \<or>
     (\<exists>r. func = ascii ''std::'' @ r) \<or> (\<exists>r. func = ascii ''operator'' @ r)"
  by (simp add: is_library_def startswith_iff str_in_iff)

text \<open>
  Claim C1, as amended: a frame is library exactly when its file starts with /usr or
  /lib, or contains one of the ten fragments, among them \<open>.so\<close> anywhere in the path, or
  its function starts with one of the four prefixes; the library bucket holds the
  extracted frames that are library, the user bucket the others, each in the order of
  extraction.
\<close>

theorem frames_partitioned_by_is_library:
  "(is_library func file \<longleftrightarrow>
     (\<exists>r. file = ascii ''/usr'' @ r) \<or> (\<exists>r. file = ascii ''/lib'' @ r) \<or>
     (\<exists>a b. file = a @ ascii ''sysdeps'' @ b) \<or> (\<exists>a b. file = a @ ascii ''malloc'' @ b) \<or>
     (\<exists>a b. file = a @ ascii ''.so'' @ b) \<or> (\<exists>a b. file = a @ ascii ''libc'' @ b) \<or>
     (\<exists>a b. file = a @ ascii ''libstdc++'' @ b) \<or> (\<exists>a b. file = a @ ascii ''libpthread'' @ b) \<or>
     (\<exists>a b. file = a @ ascii ''ld-linux'' @ b) \<or> (\<exists>a b. file = a @ ascii ''csu'' @ b) \<or>
     (\<exists>a b. file = a @ ascii ''vg_preload'' @ b) \<or> (\<exists>a b. file = a @ ascii ''linux-gnu'' @ b) \<or>
     (\<exists>r. func = ascii ''__GI_'' @ r) \<or> (\<exists>r. func = ascii ''__libc_'' @ r) \<or>
     (\<exists>r. func = ascii ''std::'' @ r) \<or> (\<exists>r. func = ascii ''operator'' @ r)) \<and>
   buckets (frames output) =
     (map entry_of (filter (\<lambda>(frame_num, addr, func, params, file, line). \<not> is_library func file)
        (frames output)),
      map entry_of (filter (\<lambda>(frame_num, addr, func, params, file, line). is_library func file)
        (frames output)))"
  using is_library_iff [of func "file"]
  by (simp only: buckets_def fold_classify append_Nil simp_thms)

theorem frames_partitioned_by_is_library_witness:
  "is_library (ascii ''f'') (ascii ''/home/u/my.sort.c'') \<and>
   buckets (frames (ascii ''SIGSEGV\<newline>#0  0x1 in f () at /home/u/my.sort.c:3\<newline>#1  0x2 in main () at /home/u/main.c:9\<newline>'')) =
     ([(ascii ''1'', ascii ''main'', ascii ''/home/u/main.c'', ascii ''9'')], [(ascii ''0'', ascii ''f'', ascii ''/home/u/my.sort.c'', ascii ''3'')])"
  (is "_ \<and> buckets (frames ?inp) = _")
proof -
  have 1: "ascii ''/home/u/my.sort.c'' = ascii ''/home/u/my'' @ ascii ''.so'' @ ascii ''rt.c''" by simp
  have 2: "map entry_of (filter (\<lambda>(frame_num, addr, func, params, file, line). \<not> is_library func file)
        (frames ?inp)) = [(ascii ''1'', ascii ''main'', ascii ''/home/u/main.c'', ascii ''9'')]"
    by code_simp
  have 3: "map entry_of (filter (\<lambda>(frame_num, addr, func, params, file, line). is_library func file)
        (frames ?inp)) = [(ascii ''0'', ascii ''f'', ascii ''/home/u/my.sort.c'', ascii ''3'')]"
    by code_simp
  note c = frames_partitioned_by_is_library [of "ascii ''f''" "ascii ''/home/u/my.sort.c''" ?inp]
  from c 1 have "is_library (ascii ''f'') (ascii ''/home/u/my.sort.c'')" by blast
  moreover from c have "buckets (frames ?inp) =
     ([(ascii ''1'', ascii ''main'', ascii ''/home/u/main.c'', ascii ''9'')], [(ascii ''0'', ascii ''f'', ascii ''/home/u/my.sort.c'', ascii ''3'')])"
    unfolding 2 3 by (rule conjunct2)
  ultimately show ?thesis by (rule conjI)
qed

text \<open>
  The path /home/u/my.sort.c is under neither root, has none of the other fragments,
  does not end with \<open>.so\<close>, and the function \<open>f\<close> has none of the prefixes; the frame is
  put in the library bucket all the same, for the \<open>.so\<close> inside the path.
\<close>

theorem path_with_so_inside_counterexample:
  "is_library (ascii ''f'') (ascii ''/home/u/my.sort.c'') \<and> \<not> spec_is_library (ascii ''f'') (ascii ''/home/u/my.sort.c'') \<and>
   frames (ascii ''SIGSEGV\<newline>#0  0x1 in f () at /home/u/my.sort.c:3\<newline>'') =
     [(ascii ''0'', ascii ''0x1'', ascii ''f'', [], ascii ''/home/u/my.sort.c'', ascii ''3'')] \<and>
   buckets (frames (ascii ''SIGSEGV\<newline>#0  0x1 in f () at /home/u/my.sort.c:3\<newline>'')) =
     ([], [(ascii ''0'', ascii ''f'', ascii ''/home/u/my.sort.c'', ascii ''3'')])"
  by code_simp

section \<open>The report on user frames\<close>

lemma signal_in_nonempty_output:
  assumes "detect_signal FRIENDLY_SIGNALS output = Some sig"
  shows "output \<noteq> []"
proof -
  from detect_signal_Some [OF assms] have occ: "str_in sig output" by blast
  have "sig \<in> fst ` set FRIENDLY_SIGNALS"
    using detect_signal_Some [OF assms] by force
  then have "sig \<noteq> []" by (auto simp: FRIENDLY_SIGNALS_def)
  with occ show ?thesis by (cases "output") auto
qed

text \<open>
  The numbered lines of the chain are those of the frames after the outermost one,
  walking inward, three at most.
\<close>

lemma chain_lines:
  assumes "1 < length xs"
  shows "map (\<lambda>i. F (i + 2) (from_end xs (i + 2))) [0 ..< min 3 (length xs - 1)] =
         map (\<lambda>(i, e). F i e) (zip [2 ..< 5] (take 3 (tl (rev xs))))"
proof (rule nth_equalityI)
  show "length (map (\<lambda>i. F (i + 2) (from_end xs (i + 2))) [0 ..< min 3 (length xs - 1)]) =
        length (map (\<lambda>(i, e). F i e) (zip [2 ..< 5] (take 3 (tl (rev xs)))))"
    by simp
next
  fix i
  assume "i < length (map (\<lambda>i. F (i + 2) (from_end xs (i + 2))) [0 ..< min 3 (length xs - 1)])"
  then have i: "i < 3" "i < length xs - 1" by simp_all
  then have "take 3 (tl (rev xs)) ! i = rev xs ! Suc i"
    by (simp add: nth_tl)
  also from i have "\<dots> = xs ! (length xs - Suc (Suc i))"
    by (simp add: rev_nth)
  finally have "take 3 (tl (rev xs)) ! i = from_end xs (i + 2)"
    by (simp add: from_end_def)
  moreover from i have "[2 ..< 5] ! i = i + 2"
    by (simp only: nth_upt)
  ultimately show "map (\<lambda>i. F (i + 2) (from_end xs (i + 2))) [0 ..< min 3 (length xs - 1)] ! i =
        map (\<lambda>(i, e). F i e) (zip [2 ..< 5] (take 3 (tl (rev xs)))) ! i"
    using i by (simp del: upt_Suc upt_rec_numeral)
qed

lemma call_chain_walk:
  assumes "rest \<noteq> []"
  shows "call_chain (e # rest) =
     ascii ''   1. '' @ func_of (last rest) @ ascii '' (started here)\<newline>'' @
     concat (map (\<lambda>(i, e'). ascii ''   '' @ str_nat i @ ascii ''. '' @ func_of e' @ ascii ''\<newline>'')
                 (zip [2 ..< 5] (take 3 (tl (rev (e # rest)))))) @
     ascii ''   '' @ rightwards_arrow @ ascii '' '' @ func_of e @ ascii '' (crashed here)\<newline>''"
proof -
  from assms have len: "1 < length (e # rest)" by (cases rest) auto
  have "from_end (e # rest) 1 = last rest"
    using assms by (simp add: from_end_def last_conv_nth)
  with len chain_lines [OF len, of "\<lambda>i e'. ascii ''   '' @ str_nat i @ ascii ''. '' @ func_of e' @ ascii ''\<newline>''"]
  show ?thesis
    unfolding call_chain_def by simp
qed

text \<open>
  Claim C2, as amended: with a signal detected and at least one user frame, the report
  gives the first user frame's file, line and function as the problem; when there are
  two user frames or more, the chain follows: the last user frame as the start, then at
  most three numbered frames walking inward from the one before it, then the first user
  frame as the place of the crash; with a single user frame only the heading of the
  chain is printed. When there is a library frame, the hint names the function of the
  first one.
\<close>

theorem user_frames_report:
  assumes "detect_signal FRIENDLY_SIGNALS output = Some sig"
      and "buckets (frames output) = ((frame_num, func, file, line) # rest, library_frames)"
  shows "parse_gdb_output output =
     Inr (header sig @
     direct_hit @ ascii '' **The problem is likely here:**\<newline>'' @
     ascii ''   '' @ file_folder @ ascii '' File: '' @ file @ ascii ''\<newline>'' @
     ascii ''   '' @ page_facing_up @ ascii '' Line: '' @ line @ ascii ''\<newline>'' @
     ascii ''   '' @ wrench @ ascii '' Function: '' @ func @ ascii ''\<newline>\<newline>'' @
     clipboard @ ascii '' **What happened (simplified):**\<newline>'' @
     (if rest = [] then []
      else (ascii ''   1. '') @ func_of (last rest) @ ascii '' (started here)\<newline>'' @
           concat (map (\<lambda>(i, e). ascii ''   '' @ str_nat i @ ascii ''. '' @ func_of e @ ascii ''\<newline>'')
                       (zip [2 ..< 5] (take 3 (tl (rev ((frame_num, func, file, line) # rest)))))) @
           ascii ''   '' @ rightwards_arrow @ ascii '' '' @ func @ ascii '' (crashed here)\<newline>'') @
     (case library_frames of [] \<Rightarrow> []
      | l # _ \<Rightarrow>
          ascii ''\<newline>'' @ light_bulb @ ascii '' **Hint:** Your code called a system function that caused the crash.\<newline>'' @
          ascii ''   The system was trying to: '' @ func_of l @ ascii ''\<newline>'') @
     quick_tips)"
proof -
  note out = signal_in_nonempty_output [OF assms(1)]
  have chain: "call_chain ((frame_num, func, file, line) # rest) =
     (if rest = [] then []
      else (ascii ''   1. '') @ func_of (last rest) @ ascii '' (started here)\<newline>'' @
           concat (map (\<lambda>(i, e). ascii ''   '' @ str_nat i @ ascii ''. '' @ func_of e @ ascii ''\<newline>'')
                       (zip [2 ..< 5] (take 3 (tl (rev ((frame_num, func, file, line) # rest)))))) @
           ascii ''   '' @ rightwards_arrow @ ascii '' '' @ func @ ascii '' (crashed here)\<newline>'')"
  proof (cases "rest = []")
    case True
    then show ?thesis by (simp add: call_chain_def)
  next
    case False
    then show ?thesis
      using call_chain_walk [OF False, of "(frame_num, func, file, line)"]
      by (simp add: func_of_def)
  qed
  have hint: "system_hint library_frames =
     (case library_frames of [] \<Rightarrow> []
      | l # _ \<Rightarrow>
          ascii ''\<newline>'' @ light_bulb @ ascii '' **Hint:** Your code called a system function that caused the crash.\<newline>'' @
          ascii ''   The system was trying to: '' @ func_of l @ ascii ''\<newline>'')"
    by (cases library_frames) (simp_all add: system_hint_def)
  have "parse_gdb_output output =
      Inr (header sig @ user_report ((frame_num, func, file, line) # rest) library_frames @ quick_tips)"
    using out assms by (simp add: parse_gdb_output_def crash_report_def)
  then show ?thesis
    by (simp add: user_report_def chain hint)
qed

theorem user_frames_report_witness:
  "parse_gdb_output
     (ascii ''Program received signal SIGABRT\<newline>#0  0x1 in __GI_raise (sig=6) at ../sysdeps/unix/sysv/linux/raise.c:50\<newline>#1  0x2 in check (p=0x0) at /home/u/a.c:7\<newline>#2  0x3 in run () at /home/u/a.c:12\<newline>#3  0x4 in main () at /home/u/a.c:20\<newline>'') =
   Inr (header (ascii ''SIGABRT'') @
   direct_hit @ ascii '' **The problem is likely here:**\<newline>'' @
   ascii ''   '' @ file_folder @ ascii '' File: /home/u/a.c\<newline>'' @
   ascii ''   '' @ page_facing_up @ ascii '' Line: 7\<newline>'' @
   ascii ''   '' @ wrench @ ascii '' Function: check\<newline>\<newline>'' @
   clipboard @ ascii '' **What happened (simplified):**\<newline>'' @
   ascii ''   1. main (started here)\<newline>'' @
   ascii ''   2. run\<newline>'' @
   ascii ''   3. check\<newline>'' @
   ascii ''   '' @ rightwards_arrow @ ascii '' check (crashed here)\<newline>'' @
   ascii ''\<newline>'' @ light_bulb @ ascii '' **Hint:** Your code called a system function that caused the crash.\<newline>'' @
   ascii ''   The system was trying to: __GI_raise\<newline>'' @
   quick_tips)"
  (is "parse_gdb_output ?inp = Inr ?text")
proof -
  have d: "detect_signal FRIENDLY_SIGNALS ?inp = Some (ascii ''SIGABRT'')"
    by code_simp
  have b: "buckets (frames ?inp) =
     ((ascii ''1'', ascii ''check'', ascii ''/home/u/a.c'', ascii ''7'') #
        [(ascii ''2'', ascii ''run'', ascii ''/home/u/a.c'', ascii ''12''), (ascii ''3'', ascii ''main'', ascii ''/home/u/a.c'', ascii ''20'')],
      [(ascii ''0'', ascii ''__GI_raise'', ascii ''../sysdeps/unix/sysv/linux/raise.c'', ascii ''50'')])"
    by code_simp
  have "parse_gdb_output ?inp = Inr (header (ascii ''SIGABRT'') @
     direct_hit @ ascii '' **The problem is likely here:**\<newline>'' @
     ascii ''   '' @ file_folder @ ascii '' File: '' @ ascii ''/home/u/a.c'' @ ascii ''\<newline>'' @
     ascii ''   '' @ page_facing_up @ ascii '' Line: '' @ ascii ''7'' @ ascii ''\<newline>'' @
     ascii ''   '' @ wrench @ ascii '' Function: '' @ ascii ''check'' @ ascii ''\<newline>\<newline>'' @
     clipboard @ ascii '' **What happened (simplified):**\<newline>'' @
     (if [(ascii ''2'', ascii ''run'', ascii ''/home/u/a.c'', ascii ''12''), (ascii ''3'', ascii ''main'', ascii ''/home/u/a.c'', ascii ''20'')] = [] then []
      else (ascii ''   1. '') @ func_of (last [(ascii ''2'', ascii ''run'', ascii ''/home/u/a.c'', ascii ''12''), (ascii ''3'', ascii ''main'', ascii ''/home/u/a.c'', ascii ''20'')]) @ ascii '' (started here)\<newline>'' @
           concat (map (\<lambda>(i, e). ascii ''   '' @ str_nat i @ ascii ''. '' @ func_of e @ ascii ''\<newline>'')
                       (zip [2 ..< 5] (take 3 (tl (rev ((ascii ''1'', ascii ''check'', ascii ''/home/u/a.c'', ascii ''7'') # [(ascii ''2'', ascii ''run'', ascii ''/home/u/a.c'', ascii ''12''), (ascii ''3'', ascii ''main'', ascii ''/home/u/a.c'', ascii ''20'')])))))) @
           ascii ''   '' @ rightwards_arrow @ ascii '' '' @ ascii ''check'' @ ascii '' (crashed here)\<newline>'') @
     (case [(ascii ''0'', ascii ''__GI_raise'', ascii ''../sysdeps/unix/sysv/linux/raise.c'', ascii ''50'')] of [] \<Rightarrow> []
      | l # _ \<Rightarrow>
          ascii ''\<newline>'' @ light_bulb @ ascii '' **Hint:** Your code called a system function that caused the crash.\<newline>'' @
          ascii ''   The system was trying to: '' @ func_of l @ ascii ''\<newline>'') @
     quick_tips)"
    by (rule user_frames_report [OF d b])
  also have "\<dots> = Inr ?text"
    by code_simp
  finally show ?thesis .
qed

text \<open>
  With a signal and a single user frame, the report has neither a start nor a place of
  the crash: the chain is only printed for two user frames or more.
\<close>

theorem single_user_frame_counterexample:
  "detect_signal FRIENDLY_SIGNALS
     (ascii ''Program received signal SIGSEGV\<newline>#0  0x1 in f () at /home/u/a.c:1\<newline>'') = Some (ascii ''SIGSEGV'') \<and>
   buckets (frames (ascii ''Program received signal SIGSEGV\<newline>#0  0x1 in f () at /home/u/a.c:1\<newline>'')) =
     ([(ascii ''0'', ascii ''f'', ascii ''/home/u/a.c'', ascii ''1'')], []) \<and>
   (case parse_gdb_output
           (ascii ''Program received signal SIGSEGV\<newline>#0  0x1 in f () at /home/u/a.c:1\<newline>'') of
      Inl e \<Rightarrow> False
    | Inr report \<Rightarrow>
        \<not> str_in (ascii ''(started here)'') report \<and> \<not> str_in (ascii ''(crashed here)'') report)"
  by code_simp

section \<open>The report on library frames alone\<close>

lemma look_at_find:
  "look_at library_frames =
     (case find (\<lambda>(frame_num, func, file, line).
                   \<not> ((\<exists>a b. func = a @ ascii ''std::'' @ b) \<or> (\<exists>a b. func = a @ ascii ''__GI_'' @ b) \<or>
                      (\<exists>a b. func = a @ ascii ''__libc_'' @ b)))
             library_frames of
        None \<Rightarrow> []
      | Some (frame_num, func, file, line) \<Rightarrow>
          magnifying_glass @ ascii '' **Look at this code:** '' @ func @ ascii '' at '' @ file @ ascii '':'' @ line @ ascii ''\<newline>'')"
  by (induction library_frames rule: look_at.induct) (simp_all add: str_in_iff)

text \<open>
  Claim C6, as amended: with a signal detected, no user frame and at least one library
  frame, the report is the fixed explanation of a crash in a system library and at most
  one line more, which names the first library frame whose function \<^emph>\<open>contains\<close> none of
  \<open>std::\<close>, \<open>__GI_\<close> and \<open>__libc_\<close>.
\<close>

theorem library_frames_report:
  assumes "detect_signal FRIENDLY_SIGNALS output = Some sig"
      and "buckets (frames output) = ([], library_frames)"
      and "library_frames \<noteq> []"
  shows "parse_gdb_output output =
     Inr (header sig @
     thinking_face @ ascii '' **The crash happened in a system library**\<newline>'' @
     light_bulb @ ascii '' **This usually means:**\<newline>'' @
     ascii ''   '' @ bullet @ ascii '' You passed invalid data to a system function\<newline>'' @
     ascii ''   '' @ bullet @ ascii '' Memory was corrupted before the system call\<newline>'' @
     ascii ''   '' @ bullet @ ascii '' You're using a library function incorrectly\<newline>\<newline>'' @
     (case find (\<lambda>(frame_num, func, file, line).
                   \<not> ((\<exists>a b. func = a @ ascii ''std::'' @ b) \<or> (\<exists>a b. func = a @ ascii ''__GI_'' @ b) \<or>
                      (\<exists>a b. func = a @ ascii ''__libc_'' @ b)))
             library_frames of
        None \<Rightarrow> []
      | Some (frame_num, func, file, line) \<Rightarrow>
          magnifying_glass @ ascii '' **Look at this code:** '' @ func @ ascii '' at '' @ file @ ascii '':'' @ line @ ascii ''\<newline>'') @
     quick_tips)"
proof -
  note out = signal_in_nonempty_output [OF assms(1)]
  have "parse_gdb_output output = Inr (header sig @ library_report library_frames @ quick_tips)"
    using out assms by (simp add: parse_gdb_output_def crash_report_def)
  then show ?thesis
    by (simp add: library_report_def look_at_find)
qed

theorem library_frames_report_witness:
  "parse_gdb_output
     (ascii ''Program received signal SIGABRT\<newline>#0  0x1 in __GI_abort () at /usr/src/abort.c:79\<newline>#1  0x2 in png_read (p=0x0) at /usr/src/libpng/read.c:12\<newline>'') =
   Inr (header (ascii ''SIGABRT'') @
   thinking_face @ ascii '' **The crash happened in a system library**\<newline>'' @
   light_bulb @ ascii '' **This usually means:**\<newline>'' @
   ascii ''   '' @ bullet @ ascii '' You passed invalid data to a system function\<newline>'' @
   ascii ''   '' @ bullet @ ascii '' Memory was corrupted before the system call\<newline>'' @
   ascii ''   '' @ bullet @ ascii '' You're using a library function incorrectly\<newline>\<newline>'' @
   magnifying_glass @ ascii '' **Look at this code:** png_read at /usr/src/libpng/read.c:12\<newline>'' @
   quick_tips)"
  (is "parse_gdb_output ?inp = Inr ?text")
proof -
  have d: "detect_signal FRIENDLY_SIGNALS ?inp = Some (ascii ''SIGABRT'')"
    by code_simp
  have b: "buckets (frames ?inp) =
     ([], [(ascii ''0'', ascii ''__GI_abort'', ascii ''/usr/src/abort.c'', ascii ''79''),
           (ascii ''1'', ascii ''png_read'', ascii ''/usr/src/libpng/read.c'', ascii ''12'')])"
    by code_simp
  have ne: "[(ascii ''0'', ascii ''__GI_abort'', ascii ''/usr/src/abort.c'', ascii ''79''),
             (ascii ''1'', ascii ''png_read'', ascii ''/usr/src/libpng/read.c'', ascii ''12'')] \<noteq> []"
    by simp
  have l: "look_at [(ascii ''0'', ascii ''__GI_abort'', ascii ''/usr/src/abort.c'', ascii ''79''),
                    (ascii ''1'', ascii ''png_read'', ascii ''/usr/src/libpng/read.c'', ascii ''12'')] =
           magnifying_glass @ ascii '' **Look at this code:** png_read at /usr/src/libpng/read.c:12\<newline>''"
    by code_simp
  from library_frames_report [OF d b ne] show ?thesis
    unfolding look_at_find [symmetric] l by (simp only: append_assoc)
qed

text \<open>
  The function \<open>my__libc_hook\<close> starts with none of the three prefixes, so that the
  frame is the one the specification's wording selects; it contains \<open>__libc_\<close>, and the
  report does not name it.
\<close>

theorem hint_skips_containing_frame_counterexample:
  "detect_signal FRIENDLY_SIGNALS
     (ascii ''Program received signal SIGSEGV\<newline>#0  0x1 in my__libc_hook () at /usr/src/a.c:3\<newline>'') = Some (ascii ''SIGSEGV'') \<and>
   buckets (frames (ascii ''Program received signal SIGSEGV\<newline>#0  0x1 in my__libc_hook () at /usr/src/a.c:3\<newline>'')) =
     ([], [(ascii ''0'', ascii ''my__libc_hook'', ascii ''/usr/src/a.c'', ascii ''3'')]) \<and>
   spec_hint_frame [(ascii ''0'', ascii ''my__libc_hook'', ascii ''/usr/src/a.c'', ascii ''3'')] =
     Some (ascii ''0'', ascii ''my__libc_hook'', ascii ''/usr/src/a.c'', ascii ''3'') \<and>
   (case parse_gdb_output
           (ascii ''Program received signal SIGSEGV\<newline>#0  0x1 in my__libc_hook () at /usr/src/a.c:3\<newline>'') of
      Inl e \<Rightarrow> False
    | Inr report \<Rightarrow> \<not> str_in (ascii ''my__libc_hook'') report)"
  by code_simp

section \<open>Extraction of the frames\<close>

text \<open>The matcher lists exactly the ways in which the pattern matches a prefix.\<close>

lemma rests_iff:
  "s' \<in> set (rests P s) \<longleftrightarrow> (\<exists>w. s = w @ s' \<and> w \<noteq> [] \<and> list_all P w)"
proof (induction s)
  case Nil
  show ?case by simp
next
  case (Cons c cs)
  show ?case
  proof
    assume "s' \<in> set (rests P (c # cs))"
    then have c: "P c" and d: "s' = cs \<or> s' \<in> set (rests P cs)" by (auto split: if_splits)
    from d show "\<exists>w. c # cs = w @ s' \<and> w \<noteq> [] \<and> list_all P w"
    proof
      assume "s' = cs"
      with c have "c # cs = [c] @ s' \<and> [c] \<noteq> [] \<and> list_all P [c]" by simp
      then show ?thesis by blast
    next
      assume "s' \<in> set (rests P cs)"
      with Cons obtain w where "cs = w @ s'" "list_all P w" by blast
      with c have "c # cs = (c # w) @ s' \<and> c # w \<noteq> [] \<and> list_all P (c # w)" by simp
      then show ?thesis by blast
    qed
  next
    assume "\<exists>w. c # cs = w @ s' \<and> w \<noteq> [] \<and> list_all P w"
    then obtain w where w: "c # cs = w @ s'" "w \<noteq> []" "list_all P w" by blast
    then obtain w' where w': "w = c # w'" by (cases w) auto
    with w have c: "P c" and cs: "cs = w' @ s'" and all: "list_all P w'" by auto
    show "s' \<in> set (rests P (c # cs))"
    proof (cases "w' = []")
      case True
      with c cs show ?thesis by simp
    next
      case False
      with cs all Cons have "s' \<in> set (rests P cs)" by blast
      with c show ?thesis by simp
    qed
  qed
qed

lemma matches_iff:
  "(g', s') \<in> set (matches r g s) \<longleftrightarrow> (\<exists>w. s = w @ s' \<and> accepts r g w g')"
proof (induction r arbitrary: g s g' s')
  case (Lit l)
  show ?case by (auto simp: startswith_iff)
next
  case (Plus P)
  show ?case by (auto simp: rests_iff)
next
  case (Star P)
  show ?case
  proof
    assume "(g', s') \<in> set (matches (Star P) g s)"
    then have g': "g' = g" and "s' \<in> set (rests P s) \<or> s' = s" by auto
    from this(2) show "\<exists>w. s = w @ s' \<and> accepts (Star P) g w g'"
    proof
      assume "s' \<in> set (rests P s)"
      with g' show ?thesis by (auto simp: rests_iff)
    next
      assume "s' = s"
      with g' have "s = [] @ s' \<and> accepts (Star P) g [] g'" by simp
      then show ?thesis by blast
    qed
  next
    assume "\<exists>w. s = w @ s' \<and> accepts (Star P) g w g'"
    then obtain w where w: "s = w @ s'" "list_all P w" "g' = g" by auto
    show "(g', s') \<in> set (matches (Star P) g s)"
    proof (cases "w = []")
      case True
      with w show ?thesis by simp
    next
      case False
      with w have "s' \<in> set (rests P s)" unfolding rests_iff by blast
      with w show ?thesis by simp
    qed
  qed
next
  case (PlusLazy P)
  show ?case by (auto simp: rests_iff)
next
  case (Opt r)
  then show ?case by auto
next
  case (Group n r)
  show ?case
  proof
    assume "(g', s') \<in> set (matches (Group n r) g s)"
    then obtain g0 where m: "(g0, s') \<in> set (matches r g s)"
      and g': "g' = g0(n \<mapsto> take (length s - length s') s)" by auto
    from m Group obtain w where "s = w @ s'" "accepts r g w g0" by blast
    with g' show "\<exists>w. s = w @ s' \<and> accepts (Group n r) g w g'" by auto
  next
    assume "\<exists>w. s = w @ s' \<and> accepts (Group n r) g w g'"
    then obtain w g0 where w: "s = w @ s'" "accepts r g w g0" "g' = g0(n \<mapsto> w)" by auto
    with Group have "(g0, s') \<in> set (matches r g s)" by blast
    moreover from w have "g' = g0(n \<mapsto> take (length s - length s') s)" by simp
    ultimately show "(g', s') \<in> set (matches (Group n r) g s)" by force
  qed
next
  case (Seq r1 r2)
  show ?case
  proof
    assume "(g', s') \<in> set (matches (Seq r1 r2) g s)"
    then obtain g1 s1 where 1: "(g1, s1) \<in> set (matches r1 g s)"
      and 2: "(g', s') \<in> set (matches r2 g1 s1)" by auto
    from 1 Seq.IH(1) obtain w1 where w1: "s = w1 @ s1" "accepts r1 g w1 g1" by blast
    from 2 Seq.IH(2) obtain w2 where w2: "s1 = w2 @ s'" "accepts r2 g1 w2 g'" by blast
    from w1 w2 have "s = (w1 @ w2) @ s' \<and> accepts (Seq r1 r2) g (w1 @ w2) g'" by auto
    then show "\<exists>w. s = w @ s' \<and> accepts (Seq r1 r2) g w g'" by blast
  next
    assume "\<exists>w. s = w @ s' \<and> accepts (Seq r1 r2) g w g'"
    then obtain w1 w2 g1 where s: "s = (w1 @ w2) @ s'" and a1: "accepts r1 g w1 g1"
      and a2: "accepts r2 g1 w2 g'" by auto
    from s a1 Seq.IH(1) have "(g1, w2 @ s') \<in> set (matches r1 g s)" by auto
    moreover from a2 Seq.IH(2) have "(g', s') \<in> set (matches r2 g1 (w2 @ s'))" by blast
    ultimately show "(g', s') \<in> set (matches (Seq r1 r2) g s)" by force
  qed
qed

lemma accepts_keeps: "accepts r g w g' \<Longrightarrow> n \<notin> group_indices r \<Longrightarrow> g' n = g n"
proof (induction r arbitrary: g w g')
  case (Seq r1 r2)
  from Seq.prems(1) obtain w1 w2 g1 where a1: "accepts r1 g w1 g1" and a2: "accepts r2 g1 w2 g'"
    by auto
  from Seq.prems(2) have n: "n \<notin> group_indices r1" "n \<notin> group_indices r2" by simp_all
  from Seq.IH(1) [OF a1 n(1)] Seq.IH(2) [OF a2 n(2)] show ?case by simp
qed auto

lemma accepts_cat_Cons:
  "accepts (cat (r # rs)) g w g' \<longleftrightarrow>
     (\<exists>w1 w2 g1. w = w1 @ w2 \<and> accepts r g w1 g1 \<and> accepts (cat rs) g1 w2 g')"
  by (cases rs) auto

lemma accepts_cat_append:
  "accepts (cat (xs @ ys)) g w g' \<longleftrightarrow>
     (\<exists>w1 w2 g1. w = w1 @ w2 \<and> accepts (cat xs) g w1 g1 \<and> accepts (cat ys) g1 w2 g')"
proof (induction xs arbitrary: g w)
  case Nil
  show ?case by simp
next
  case (Cons x xs)
  show ?case
  proof
    assume "accepts (cat ((x # xs) @ ys)) g w g'"
    then have "accepts (cat (x # (xs @ ys))) g w g'" by simp
    then obtain u v h where w: "w = u @ v" and x: "accepts x g u h"
      and r: "accepts (cat (xs @ ys)) h v g'"
      unfolding accepts_cat_Cons by blast
    from r obtain v1 v2 h1 where v: "v = v1 @ v2" and xs: "accepts (cat xs) h v1 h1"
      and ys: "accepts (cat ys) h1 v2 g'"
      unfolding Cons by blast
    from x xs have "accepts (cat (x # xs)) g (u @ v1) h1"
      unfolding accepts_cat_Cons by blast
    moreover from w v have "w = (u @ v1) @ v2" by simp
    ultimately show "\<exists>w1 w2 g1. w = w1 @ w2 \<and> accepts (cat (x # xs)) g w1 g1 \<and>
        accepts (cat ys) g1 w2 g'"
      using ys by blast
  next
    assume "\<exists>w1 w2 g1. w = w1 @ w2 \<and> accepts (cat (x # xs)) g w1 g1 \<and>
        accepts (cat ys) g1 w2 g'"
    then obtain w1 w2 g1 where w: "w = w1 @ w2" and a: "accepts (cat (x # xs)) g w1 g1"
      and ys: "accepts (cat ys) g1 w2 g'" by blast
    from a obtain u v h where w1: "w1 = u @ v" and x: "accepts x g u h"
      and xs: "accepts (cat xs) h v g1"
      unfolding accepts_cat_Cons by blast
    from xs ys have "accepts (cat (xs @ ys)) h (v @ w2) g'"
      unfolding Cons by blast
    with x have "accepts (cat (x # (xs @ ys))) g (u @ (v @ w2)) g'"
      unfolding accepts_cat_Cons by blast
    with w w1 show "accepts (cat ((x # xs) @ ys)) g w g'" by simp
  qed
qed



lemma frame_shape:
  assumes "accepts frame_pattern Map.empty w g"
  shows "\<exists>mid w1 w2.
           w = ascii ''#'' @ group g 1 @ mid @ ascii '')'' @ w1 @ ascii ''at'' @ w2 @ group g 5 @ ascii '':'' @ group g 6 \<and>
           group g 1 \<noteq> [] \<and> list_all is_digit (group g 1) \<and>
           w1 \<noteq> [] \<and> list_all is_space w1 \<and> w2 \<noteq> [] \<and> list_all is_space w2 \<and>
           group g 5 \<noteq> [] \<and> list_all (\<lambda>c. c \<noteq> ord CHR ''\<newline>'') (group g 5) \<and>
           group g 6 \<noteq> [] \<and> list_all is_digit (group g 6)"
proof -
  let ?front = "[Lit (ascii ''#''), Group 1 (Plus is_digit)]"
  let ?middle = "[Plus is_space,
     Opt (Group 2 (Seq (Lit (ascii ''0x'')) (Plus is_hex))),
     Plus is_space, Lit (ascii ''in''), Plus is_space,
     Group 3 (Plus (\<lambda>c. c \<noteq> ord CHR ''('')),
     Opt (Group 4 (cat [Lit (ascii ''(''), Star (\<lambda>c. c \<noteq> ord CHR '')''), Lit (ascii '')'')])),
     Plus is_space,
     Lit (ascii ''(''), Star (\<lambda>c. c \<noteq> ord CHR '')'')]"
  let ?tail = "[Lit (ascii '')''), Plus is_space, Lit (ascii ''at''), Plus is_space,
     Group 5 (PlusLazy (\<lambda>c. c \<noteq> ord CHR ''\<newline>'')),
     Lit (ascii '':''), Group 6 (Plus is_digit)]"
  have "frame_pattern = cat (?front @ (?middle @ ?tail))"
    by (simp add: frame_pattern_def)
  with assms have "accepts (cat (?front @ (?middle @ ?tail))) Map.empty w g"
    by (simp only:)
  from this [THEN accepts_cat_append [THEN iffD1]] obtain wf r gf where wr: "w = wf @ r"
    and f: "accepts (cat ?front) Map.empty wf gf"
    and r: "accepts (cat (?middle @ ?tail)) gf r g"
    by (elim exE conjE)
  from r [THEN accepts_cat_append [THEN iffD1]] obtain wm wt gm where r': "r = wm @ wt"
    and m: "accepts (cat ?middle) gf wm gm"
    and t: "accepts (cat ?tail) gm wt g"
    by (elim exE conjE)
  from wr r' have w: "w = wf @ wm @ wt" by simp
  from f obtain n where wf: "wf = ascii ''#'' @ n" and n: "n \<noteq> []" "list_all is_digit n"
    and gf: "gf = Map.empty(1 \<mapsto> n)"
    by auto
  have "1 \<notin> group_indices (cat ?middle)" by simp
  from accepts_keeps [OF m this] gf have gm: "gm 1 = Some n" by simp
  from t obtain w1 w2 fl ln where wt: "wt = ascii '')'' @ w1 @ ascii ''at'' @ w2 @ fl @ ascii '':'' @ ln"
    and w1: "w1 \<noteq> []" "list_all is_space w1" and w2: "w2 \<noteq> []" "list_all is_space w2"
    and fl: "fl \<noteq> []" "list_all (\<lambda>c. c \<noteq> ord CHR ''\<newline>'') fl"
    and ln: "ln \<noteq> []" "list_all is_digit ln"
    and g: "g = gm(5 \<mapsto> fl, 6 \<mapsto> ln)"
    by auto
  from g gm have grp: "group g 1 = n" "group g 5 = fl" "group g 6 = ln"
    by (simp_all add: group_def)
  from w wf wt have "w = ascii ''#'' @ n @ wm @ ascii '')'' @ w1 @ ascii ''at'' @ w2 @ fl @ ascii '':'' @ ln"
    by simp
  with n w1 w2 fl ln show ?thesis
    unfolding grp by (intro exI conjI)
qed

text \<open>A match of the frame pattern is never empty: the scan of \<open>findall\<close> always moves on.\<close>

lemma frame_match_consumes:
  assumes "(g, s') \<in> set (matches frame_pattern Map.empty s)"
  shows "length s' < length s"
proof -
  from assms obtain w where s: "s = w @ s'" and acc: "accepts frame_pattern Map.empty w g"
    unfolding matches_iff by (elim exE conjE)
  from frame_shape [OF acc] obtain r where "w = ascii ''#'' @ r" by (elim exE conjE) simp
  with s show ?thesis by simp
qed







section \<open>Exit codes\<close>

text \<open>The first entry of a greedy repetition's matches leaves the text after the whole run.\<close>

lemma rests_Nil_iff: "rests P s = [] \<longleftrightarrow> (s = [] \<or> \<not> P (hd s))"
  by (cases s) auto

lemma dropWhile_id: "s = [] \<or> \<not> P (hd s) \<Longrightarrow> dropWhile P s = s"
  by (cases s) auto

lemma rests_last: "rests P s \<noteq> [] \<Longrightarrow> last (rests P s) = dropWhile P s"
  by (induction s) (auto simp: rests_Nil_iff dropWhile_id split: if_splits)

lemma matches_exit_pattern:
  "matches exit_pattern g s =
     (if startswith s (ascii ''exited with code '')
      then map (\<lambda>s'. (g(1 \<mapsto> take (length (drop 17 s) - length s') (drop 17 s)), s'))
             (rev (rests is_digit (drop 17 s)))
      else [])"
proof -
  have "length (ascii ''exited with code '') = 17" by simp
  then show ?thesis
    unfolding exit_pattern_def matches.simps by (simp only: rev_map map_map comp_def split: if_splits) (simp add: rev_map comp_def)
qed

lemma matches_exit_Nil:
  "matches exit_pattern g s = [] \<longleftrightarrow> \<not> (\<exists>d t. s = ascii ''exited with code '' @ d # t \<and> is_digit d)"
proof -
  have "(\<exists>d t. s = ascii ''exited with code '' @ d # t \<and> is_digit d) \<longleftrightarrow>
        startswith s (ascii ''exited with code '') \<and> rests is_digit (drop 17 s) \<noteq> []"
  proof
    assume "\<exists>d t. s = ascii ''exited with code '' @ d # t \<and> is_digit d"
    then obtain d t where "s = ascii ''exited with code '' @ d # t" "is_digit d" by blast
    then show "startswith s (ascii ''exited with code '') \<and> rests is_digit (drop 17 s) \<noteq> []"
      by (simp add: startswith_iff)
  next
    assume a: "startswith s (ascii ''exited with code '') \<and> rests is_digit (drop 17 s) \<noteq> []"
    then obtain r where r: "s = ascii ''exited with code '' @ r" by (auto simp: startswith_iff)
    with a have "rests is_digit r \<noteq> []" by simp
    then obtain d t where "r = d # t" "is_digit d" by (cases r) (auto split: if_splits)
    with r show "\<exists>d t. s = ascii ''exited with code '' @ d # t \<and> is_digit d" by blast
  qed
  then show ?thesis by (simp add: matches_exit_pattern)
qed

lemma matches_exit_first:
  assumes "ds \<noteq> []" and "\<forall>c\<in>set ds. is_digit c" and "t = [] \<or> \<not> is_digit (hd t)"
  shows "\<exists>rest. matches exit_pattern g (ascii ''exited with code '' @ ds @ t) = (g(1 \<mapsto> ds), t) # rest"
proof -
  let ?r = "rests is_digit (ds @ t)"
  have tw: "takeWhile is_digit (ds @ t) = ds" and dw: "dropWhile is_digit (ds @ t) = t"
    using assms(2,3) by (cases t; simp add: takeWhile_append2 dropWhile_append2)+
  have ne: "?r \<noteq> []" using assms(1,2) by (cases ds) auto
  then have "last ?r = t" by (simp add: rests_last dw)
  with ne have "hd (rev ?r) = t" by (simp add: hd_rev)
  with ne obtain xs where "rev ?r = t # xs" by (cases "rev ?r") auto
  then show ?thesis
    by (simp add: matches_exit_pattern startswith_iff)
qed

lemma search_first: "matches r Map.empty s = (g, s') # ms \<Longrightarrow> search r s = Some g"
  by (cases s) simp_all

lemma search_skip: "matches r Map.empty (c # cs) = [] \<Longrightarrow> search r (c # cs) = search r cs"
  by simp

lemma search_exit_None:
  "search exit_pattern s = None \<longleftrightarrow>
     \<not> (\<exists>a d t. s = a @ ascii ''exited with code '' @ d # t \<and> is_digit d)"
proof (induction s)
  case Nil
  show ?case by (simp add: matches_exit_pattern)
next
  case (Cons c cs)
  let ?here = "\<exists>d t. c # cs = ascii ''exited with code '' @ d # t \<and> is_digit d"
  have split: "(\<exists>a d t. c # cs = a @ ascii ''exited with code '' @ d # t \<and> is_digit d) \<longleftrightarrow>
      ?here \<or> (\<exists>a d t. cs = a @ ascii ''exited with code '' @ d # t \<and> is_digit d)"
    (is "?L \<longleftrightarrow> _ \<or> ?R")
  proof
    assume ?L
    then obtain a d t where e: "c # cs = a @ ascii ''exited with code '' @ d # t" and d: "is_digit d"
      by blast
    show "?here \<or> ?R"
    proof (cases a)
      case Nil
      with e d show ?thesis by auto
    next
      case (Cons x a')
      with e have "cs = a' @ ascii ''exited with code '' @ d # t" by simp
      with d show ?thesis by blast
    qed
  next
    assume "?here \<or> ?R"
    then show ?L
    proof
      assume ?here
      then obtain d t where "c # cs = [] @ ascii ''exited with code '' @ d # t" "is_digit d" by auto
      then show ?L by blast
    next
      assume ?R
      then obtain a d t where "c # cs = (c # a) @ ascii ''exited with code '' @ d # t" "is_digit d"
        by auto
      then show ?L by blast
    qed
  qed
  show ?case
  proof (cases "matches exit_pattern Map.empty (c # cs)")
    case Nil
    then have "\<not> ?here" by (simp add: matches_exit_Nil)
    with Nil Cons split show ?thesis by simp
  next
    case (Cons m ms)
    then have "matches exit_pattern Map.empty (c # cs) \<noteq> []" by simp
    then have ?here by (simp add: matches_exit_Nil)
    with Cons split show ?thesis by (cases m) simp
  qed
qed

lemma prefix_within:
  assumes "x @ y = p @ q" and "length p \<le> length x"
  shows "\<exists>r. x = p @ r"
proof -
  from assms(1) have "take (length p) (x @ y) = p" by simp
  with assms(2) have "take (length p) x = p" by simp
  then have "x = p @ drop (length p) x" by (metis append_take_drop_id)
  then show ?thesis ..
qed

lemma search_exit_Some:
  assumes "ds \<noteq> []" and "\<forall>c\<in>set ds. is_digit c" and "t = [] \<or> \<not> is_digit (hd t)"
    and "\<not> (\<exists>a' d t'. a @ ascii ''exited with code '' = a' @ ascii ''exited with code '' @ d # t' \<and> is_digit d)"
  shows "search exit_pattern (a @ ascii ''exited with code '' @ ds @ t) = Some (Map.empty(1 \<mapsto> ds))"
  using assms(4)
proof (induction a)
  case Nil
  from matches_exit_first [OF assms(1-3), of Map.empty] obtain rest where
    m: "matches exit_pattern Map.empty (ascii ''exited with code '' @ ds @ t) = (Map.empty(1 \<mapsto> ds), t) # rest"
    by blast
  have "search exit_pattern (ascii ''exited with code '' @ ds @ t) = Some (Map.empty(1 \<mapsto> ds))"
    by (rule search_first [OF m])
  then show ?case by (simp only: append_Nil)
next
  case (Cons c a)
  have no: "matches exit_pattern Map.empty ((c # a) @ ascii ''exited with code '' @ ds @ t) = []"
  proof (rule ccontr)
    assume "\<not> ?thesis"
    then obtain d t' where e: "(c # a) @ ascii ''exited with code '' @ ds @ t = ascii ''exited with code '' @ d # t'"
      and d: "is_digit d" by (auto simp: matches_exit_Nil)
    from e have "((c # a) @ ascii ''exited with code '') @ (ds @ t) = (ascii ''exited with code '' @ [d]) @ t'"
      by simp
    from prefix_within [OF this] obtain r where
      "(c # a) @ ascii ''exited with code '' = (ascii ''exited with code '' @ [d]) @ r" by auto
    then have "(c # a) @ ascii ''exited with code '' = [] @ ascii ''exited with code '' @ d # r" by simp
    with d Cons.prems show False by blast
  qed
  have "\<not> (\<exists>a' d t'. a @ ascii ''exited with code '' = a' @ ascii ''exited with code '' @ d # t' \<and> is_digit d)"
  proof
    assume "\<exists>a' d t'. a @ ascii ''exited with code '' = a' @ ascii ''exited with code '' @ d # t' \<and> is_digit d"
    then obtain a' d t' where "a @ ascii ''exited with code '' = a' @ ascii ''exited with code '' @ d # t'"
      and d: "is_digit d" by blast
    then have "(c # a) @ ascii ''exited with code '' = (c # a') @ ascii ''exited with code '' @ d # t'" by simp
    with d Cons.prems show False by blast
  qed
  from Cons.IH [OF this] search_skip [OF no [unfolded append_Cons]] show ?case
    by (simp only: append_Cons)
qed


text \<open>
  Claim C10: a text with no signal name that contains \<open>exited with code\<close>, but nowhere
  \<open>exited with code\<close>, a space and a digit, gets the message that no crash was detected.
\<close>

theorem exit_marker_without_digits:
  assumes "\<forall>sig \<in> set [ascii ''SIGSEGV'', ascii ''SIGABRT'', ascii ''SIGFPE'', ascii ''SIGILL'', ascii ''SIGBUS'', ascii ''SIGTRAP'', ascii ''SIGSYS''].
             \<not> (\<exists>a b. output = a @ sig @ b)"
      and "\<exists>a b. output = a @ ascii ''exited with code'' @ b"
      and "\<forall>a d t. output = a @ ascii ''exited with code '' @ d # t \<longrightarrow> \<not> is_digit d"
  shows "parse_gdb_output output = Inr (check_mark @ ascii '' No crash detected! Program finished normally.'')"
proof -
  from assms(2) have out: "output \<noteq> []" by auto
  from assms(2) have occ: "str_in (ascii ''exited with code'') output" by (simp only: str_in_iff)
  from assms(3) have "search exit_pattern output = None"
    by (simp only: search_exit_None) blast
  with occ have "no_signal_report output = Inr no_crash"
    by (simp add: no_signal_report_def)
  with out no_signal_detected [OF assms(1)] show ?thesis
    by (simp add: parse_gdb_output_def no_crash_def)
qed

theorem exit_marker_without_digits_witness:
  "parse_gdb_output (ascii ''[Inferior 1 (process 42) exited with code -1]'') =
     Inr (check_mark @ ascii '' No crash detected! Program finished normally.'')"
  (is "parse_gdb_output ?inp = _")
proof -
  have d: "detect_signal FRIENDLY_SIGNALS ?inp = None" by code_simp
  have 1: "\<forall>sig \<in> set [ascii ''SIGSEGV'', ascii ''SIGABRT'', ascii ''SIGFPE'', ascii ''SIGILL'', ascii ''SIGBUS'', ascii ''SIGTRAP'', ascii ''SIGSYS''].
             \<not> (\<exists>a b. ?inp = a @ sig @ b)"
    using d unfolding detect_signal_names find_None_iff by blast
  have "str_in (ascii ''exited with code'') ?inp" by code_simp
  then have 2: "\<exists>a b. ?inp = a @ ascii ''exited with code'' @ b" by (simp only: str_in_iff)
  have "search exit_pattern ?inp = None" by code_simp
  then have 3: "\<forall>a d t. ?inp = a @ ascii ''exited with code '' @ d # t \<longrightarrow> \<not> is_digit d"
    by (simp only: search_exit_None) blast
  from exit_marker_without_digits [OF 1 2 3] show ?thesis .
qed

text \<open>
  Claim C5, as amended: a text with no signal name, in which the first
  \<open>exited with code\<close> followed by a space and a decimal digit has a run of at most 4300
  decimal digits, of value 0, is reported as a success. (The run is the whole run of
  digits: \<open>t\<close>, the text after it, does not start with one. A longer run makes \<open>int\<close>
  raise.)
\<close>

theorem success_on_exit_code_zero:
  assumes "\<forall>sig \<in> set [ascii ''SIGSEGV'', ascii ''SIGABRT'', ascii ''SIGFPE'', ascii ''SIGILL'', ascii ''SIGBUS'', ascii ''SIGTRAP'', ascii ''SIGSYS''].
             \<not> (\<exists>a b. output = a @ sig @ b)"
      and "output = a @ ascii ''exited with code '' @ ds @ t"
      and "ds \<noteq> []" and "\<forall>c\<in>set ds. is_digit c" and "t = [] \<or> \<not> is_digit (hd t)"
      and "\<not> (\<exists>a' d t'. a @ ascii ''exited with code '' = a' @ ascii ''exited with code '' @ d # t' \<and> is_digit d)"
      and "length ds \<le> 4300"
      and "int_of_digits ds = 0"
  shows "parse_gdb_output output = Inr (party_popper @ ascii '' Success! Program finished perfectly with code 0!'')"
proof -
  from assms(2) have out: "output \<noteq> []" by auto
  from assms(2) have "output = a @ ascii ''exited with code'' @ (ascii '' '' @ ds @ t)" by simp
  then have occ: "str_in (ascii ''exited with code'') output" unfolding str_in_iff by blast
  have "search exit_pattern output = Some (Map.empty(1 \<mapsto> ds))"
    unfolding assms(2) by (rule search_exit_Some [OF assms(3,4,5,6)])
  with occ assms(7,8) have "no_signal_report output = Inr success"
    by (simp add: no_signal_report_def group_def py_int_def int_max_str_digits_def)
  with out no_signal_detected [OF assms(1)] show ?thesis
    by (simp add: parse_gdb_output_def success_def)
qed

theorem success_on_exit_code_zero_witness:
  "parse_gdb_output (ascii ''exited with code -1\<newline>[Inferior 1 (process 42) exited with code 0]\<newline>'') =
     Inr (party_popper @ ascii '' Success! Program finished perfectly with code 0!'')"
  (is "parse_gdb_output ?inp = _")
proof -
  have d: "detect_signal FRIENDLY_SIGNALS ?inp = None" by code_simp
  have 1: "\<forall>sig \<in> set [ascii ''SIGSEGV'', ascii ''SIGABRT'', ascii ''SIGFPE'', ascii ''SIGILL'', ascii ''SIGBUS'', ascii ''SIGTRAP'', ascii ''SIGSYS''].
             \<not> (\<exists>a b. ?inp = a @ sig @ b)"
    using d unfolding detect_signal_names find_None_iff by blast
  have 2: "?inp = ascii ''exited with code -1\<newline>[Inferior 1 (process 42) '' @ ascii ''exited with code '' @ ascii ''0'' @ ascii '']\<newline>''"
    by simp
  have 3: "ascii ''0'' \<noteq> []" and 7: "length (ascii ''0'') \<le> 4300"
    by simp_all
  have 4: "\<forall>c\<in>set (ascii ''0''). is_digit c"
    by code_simp
  have 5: "ascii '']\<newline>'' = [] \<or> \<not> is_digit (hd (ascii '']\<newline>''))"
    by code_simp
  have 8: "int_of_digits (ascii ''0'') = 0"
    by code_simp
  have "search exit_pattern (ascii ''exited with code -1\<newline>[Inferior 1 (process 42) '' @ ascii ''exited with code '') = None"
    by code_simp
  then have 6: "\<not> (\<exists>a' d t'. ascii ''exited with code -1\<newline>[Inferior 1 (process 42) '' @ ascii ''exited with code '' =
                   a' @ ascii ''exited with code '' @ d # t' \<and> is_digit d)"
    unfolding search_exit_None .
  from success_on_exit_code_zero [OF 1 2 3 4 5 6 7 8] show ?thesis .
qed

text \<open>
  The marker of exit code 0 does not decide alone: a signal name in the text gives a
  crash report, and \<open>exited with code 01\<close>, which is how the debugger prints the exit
  code 1, contains \<open>exited with code 0\<close> and is reported as the error code 1.
\<close>

theorem exit_code_zero_substring_counterexample:
  "str_in (ascii ''exited with code 0'')
     (ascii ''Program received signal SIGSEGV, Segmentation fault.\<newline>[Inferior 1 (process 42) exited with code 0]'') \<and>
   parse_gdb_output
     (ascii ''Program received signal SIGSEGV, Segmentation fault.\<newline>[Inferior 1 (process 42) exited with code 0]'') \<noteq> Inr success \<and>
   str_in (ascii ''exited with code 0'') (ascii ''[Inferior 1 (process 42) exited with code 01]'') \<and>
   parse_gdb_output (ascii ''[Inferior 1 (process 42) exited with code 01]'') = Inr (error_exit 1) \<and>
   error_exit 1 \<noteq> success"
  by code_simp

section \<open>The end-to-end example\<close>

text \<open>
  Claim C3, as amended: on the example text the header is that of a segmentation fault
  and the problem section names the file /home/user/app.c, the line 10 and the
  function crash_func. The pattern takes the text in parentheses before \<open>at\<close> as the
  argument values, outside every group, so that the function is reported without it.
\<close>

theorem example_report:
  "parse_gdb_output
     (ascii ''Program received signal SIGSEGV...\<newline>#0  0x0000000000401146 in crash_func () at /home/user/app.c:10\<newline>#1  0x0000000000401160 in main () at /home/user/app.c:15\<newline>'') =
   Inr (ascii ''\<newline>'' @ magnifying_glass @ ascii '' '' @ octagonal_sign @
     ascii '' Segmentation fault (tried to access memory that doesn't belong to you)\<newline>\<newline>'' @
   direct_hit @ ascii '' **The problem is likely here:**\<newline>'' @
   ascii ''   '' @ file_folder @ ascii '' File: /home/user/app.c\<newline>'' @
   ascii ''   '' @ page_facing_up @ ascii '' Line: 10\<newline>'' @
   ascii ''   '' @ wrench @ ascii '' Function: crash_func\<newline>\<newline>'' @
   clipboard @ ascii '' **What happened (simplified):**\<newline>'' @
   ascii ''   1. main (started here)\<newline>'' @
   ascii ''   2. crash_func\<newline>'' @
   ascii ''   '' @ rightwards_arrow @ ascii '' crash_func (crashed here)\<newline>'' @
   quick_tips)"
  by code_simp

text \<open>The report of the example nowhere names the function as \<open>crash_func ()\<close>.\<close>

theorem example_report_counterexample:
  "(case parse_gdb_output
          (ascii ''Program received signal SIGSEGV...\<newline>#0  0x0000000000401146 in crash_func () at /home/user/app.c:10\<newline>#1  0x0000000000401160 in main () at /home/user/app.c:15\<newline>'') of
     Inl e \<Rightarrow> False
   | Inr report \<Rightarrow> \<not> str_in (ascii ''Function: crash_func ()'') report)"
  by code_simp

end
